theory Spec2Isabelle
  imports Complex_Main "HOL-Library.Char_ord" "HOL-Library.List_Lexorder" "HOL-Library.Multiset"
    "HOL-Library.Log_Nat"
begin

section \<open>The launch dataset\<close>

text \<open>
  \<^verbatim>\<open>spacex_df = pd.read_csv("spacex_launch_dash.csv")\<close> is a table with the columns
  \<^verbatim>\<open>'Launch Site'\<close>, \<^verbatim>\<open>'Payload Mass (kg)'\<close>, \<^verbatim>\<open>'Booster Version'\<close> and \<^verbatim>\<open>'class'\<close>
  that the callbacks read. A row is a record with one field per such column; any further
  column of the file lives in the record's extension, so every function below is stated
  for \<open>'a launch_scheme\<close>. The data frame is the list of its rows in file order.

  Cells are as the schema has them: a site and a booster version are strings, a payload
  mass is a number (the \<open>real\<close> that the cell's int64 or float64 value is), a class is an
  integer. A missing cell (pandas' NaN) is outside this model.
\<close>

record launch =
  launch_site :: string
  payload_mass :: real
  booster_version :: string
  launch_class :: int

datatype error = ValueError | TypeError

section \<open>The pandas operations the callbacks use\<close>

text \<open>
  A column is the list of its cells. Comparing a column with a scalar gives a mask.
  \<open>series_ge\<close> and \<open>series_le\<close> compare the values as they are, which is what numpy does
  when the column and the scalar have one numeric type; the comparison for every pairing
  of types is \<open>series_ge_typed\<close> and \<open>series_le_typed\<close> below.
\<close>

definition series_ge :: "real list \<Rightarrow> real \<Rightarrow> bool list" where
  "series_ge col v = map (\<lambda>c. c \<ge> v) col"

definition series_le :: "real list \<Rightarrow> real \<Rightarrow> bool list" where
  "series_le col v = map (\<lambda>c. c \<le> v) col"

definition series_eq :: "'c list \<Rightarrow> 'c \<Rightarrow> bool list" where
  "series_eq col v = map (\<lambda>c. c = v) col"

definition series_and :: "bool list \<Rightarrow> bool list \<Rightarrow> bool list" where
  "series_and m1 m2 = map2 (\<and>) m1 m2"

text \<open>\<^verbatim>\<open>df[mask]\<close>: the rows whose mask entry is true, in the frame's order.\<close>

definition getitem_mask :: "'r list \<Rightarrow> bool list \<Rightarrow> 'r list" where
  "getitem_mask df key = map fst (filter snd (zip df key))"

text \<open>
  \<^verbatim>\<open>Series.min()\<close> and \<^verbatim>\<open>Series.max()\<close>. On an empty column pandas returns NaN,
  which is \<open>None\<close> here.
\<close>

fun series_min :: "real list \<Rightarrow> real option" where
  "series_min [] = None"
| "series_min (c # col) = (case series_min col of None \<Rightarrow> Some c | Some m \<Rightarrow> Some (min c m))"

fun series_max :: "real list \<Rightarrow> real option" where
  "series_max [] = None"
| "series_max (c # col) = (case series_max col of None \<Rightarrow> Some c | Some m \<Rightarrow> Some (max c m))"

text \<open>
  \<^verbatim>\<open>groupby(key).size().reset_index(name=...)\<close>: one row per key that occurs, the keys
  in ascending order (pandas sorts group keys), each with the number of rows that have it.
\<close>

definition groupby_size :: "'k::linorder list \<Rightarrow> ('k \<times> nat) list" where
  "groupby_size keys = map (\<lambda>k. (k, count_list keys k)) (sort (remdups keys))"

text \<open>
  \<^verbatim>\<open>Series.value_counts().reset_index()\<close>: one row per value that occurs, with the
  number of its occurrences, the most frequent first; values are met in order of first
  appearance and the sort by count keeps that order among equal counts.
\<close>

definition unique :: "'c list \<Rightarrow> 'c list" where
  "unique col = rev (remdups (rev col))"

definition value_counts :: "'c list \<Rightarrow> ('c \<times> nat) list" where
  "value_counts col =
     sort_key (\<lambda>(v, n). - int n) (map (\<lambda>v. (v, count_list col v)) (unique col))"

text \<open>
  \<^verbatim>\<open>.replace({1: 'Success', 0: 'Failure'})\<close> on the class column: a cell is afterwards a
  string or, for any other class value, the integer it was.
\<close>

datatype cell = Text string | Number int

definition replace_class :: "int \<Rightarrow> cell" where
  "replace_class c = (if c = 1 then Text ''Success'' else if c = 0 then Text ''Failure'' else Number c)"

section \<open>Figures\<close>

text \<open>
  plotly is an external library: a figure is the chart specification it is built from,
  that is the data and the arguments given to \<^verbatim>\<open>px.pie\<close> and \<^verbatim>\<open>px.scatter\<close>,
  and the axis settings made on it afterwards.
\<close>

record pie_fig =
  pie_names :: "cell list"
  pie_values :: "nat list"
  pie_title :: string

definition px_pie :: "(cell \<times> nat) list \<Rightarrow> string \<Rightarrow> pie_fig" where
  "px_pie frame title = \<lparr>pie_names = map fst frame, pie_values = map snd frame, pie_title = title\<rparr>"

record 'r scatter_fig =
  sc_data_frame :: "'r list"
  sc_x :: string
  sc_y :: string
  sc_color :: string
  sc_hover_data :: "string list"
  sc_title :: string
  sc_labels :: "(string \<times> string) list"
  sc_tickvals :: "int list option"
  sc_ticktext :: "string list option"

definition payload_col :: string where
  "payload_col = ''Payload Mass (kg)''"

definition px_scatter :: "'r list \<Rightarrow> string \<Rightarrow> 'r scatter_fig" where
  "px_scatter df title =
     \<lparr>sc_data_frame = df, sc_x = payload_col, sc_y = ''class'', sc_color = ''Booster Version'',
      sc_hover_data = [''Launch Site'', ''Payload Mass (kg)''], sc_title = title,
      sc_labels = [(''class'', ''Landing Success (1=Success,0=Fail)'')],
      sc_tickvals = None, sc_ticktext = None\<rparr>"

definition update_yaxes :: "int list \<Rightarrow> string list \<Rightarrow> 'r scatter_fig \<Rightarrow> 'r scatter_fig" where
  "update_yaxes tickvals ticktext fig = fig\<lparr>sc_tickvals := Some tickvals, sc_ticktext := Some ticktext\<rparr>"

section \<open>The callbacks\<close>

text \<open>
  The module-level \<^verbatim>\<open>spacex_df\<close> is the first argument of each callback.
\<close>

definition update_pie_chart :: "'a launch_scheme list \<Rightarrow> string \<Rightarrow> pie_fig" where
  "update_pie_chart spacex_df selected_site =
     (if selected_site = ''ALL'' then
        let success_counts =
              groupby_size (map launch_site
                (getitem_mask spacex_df (series_eq (map launch_class spacex_df) 1)))
        in px_pie (map (\<lambda>(s, n). (Text s, n)) success_counts)
             ''Total Successful Launches by Site''
      else
        let filtered_df = getitem_mask spacex_df (series_eq (map launch_site spacex_df) selected_site);
            outcome_counts = value_counts (map launch_class filtered_df);
            outcome_counts = map (\<lambda>(c, n). (replace_class c, n)) outcome_counts
        in px_pie outcome_counts (''Success vs Failure for '' @ selected_site))"

text \<open>
  \<^verbatim>\<open>low, high = payload_range\<close> unpacks a sequence of exactly two numbers and raises
  \<^verbatim>\<open>ValueError\<close> on any other length.
\<close>

fun update_scatter ::
  "'a launch_scheme list \<Rightarrow> string \<Rightarrow> real list \<Rightarrow> error + 'a launch_scheme scatter_fig" where
  "update_scatter spacex_df selected_site [low, high] =
     (let mask = series_and (series_ge (map payload_mass spacex_df) low)
                            (series_le (map payload_mass spacex_df) high);
          filtered_df = getitem_mask spacex_df mask;
          fig = (if selected_site = ''ALL'' then
                   px_scatter filtered_df
                     ''Correlation between Payload and Success for All Launch Sites''
                 else
                   let site_df = getitem_mask filtered_df
                                   (series_eq (map launch_site filtered_df) selected_site)
                   in px_scatter site_df
                        (''Correlation between Payload and Success for site '' @ selected_site))
      in Inr (update_yaxes [0, 1] [''Failure'', ''Success''] fig))"
| "update_scatter spacex_df selected_site payload_range = Inl ValueError"

text \<open>The title \<open>update_scatter\<close> gives its figure, by site filter.\<close>

definition scatter_title :: "string \<Rightarrow> string" where
  "scatter_title s =
     (if s = ''ALL'' then ''Correlation between Payload and Success for All Launch Sites''
      else ''Correlation between Payload and Success for site '' @ s)"

section \<open>Numbers as numpy compares them\<close>

text \<open>
  The payload column has the dtype int64 (every cell a whole number of 64 bits) or float64.
  A bound of the payload range is a Python \<^verbatim>\<open>int\<close> or \<^verbatim>\<open>float\<close>; an integer
  bound is taken in the int64 range, and a float is finite.
\<close>

datatype dtype = Int64 | Float64

datatype number = PyInt int | PyFloat real

fun number_value :: "number \<Rightarrow> real" where
  "number_value (PyInt n) = real_of_int n"
| "number_value (PyFloat x) = x"

fun int64_range :: "number \<Rightarrow> bool" where
  "int64_range (PyInt n) \<longleftrightarrow> - (2 ^ 63) \<le> n \<and> n < 2 ^ 63"
| "int64_range (PyFloat x) \<longleftrightarrow> True"

text \<open>
  The conversion of an integer to float64: the nearest number with 53 significant bits,
  a tie going to the one whose last bit is 0. Up to \<open>2 ^ 53\<close> in magnitude every integer
  is its own float64.
\<close>

definition round_f64 :: "int \<Rightarrow> int" where
  "round_f64 n =
     (let a = \<bar>n\<bar>; e = bitlen a - 53 in
      if e \<le> 0 then n
      else
        let q = a div 2 ^ nat e; r = a mod 2 ^ nat e; h = 2 ^ (nat e - 1);
            q' = (if r < h then q else if h < r then q + 1 else if even q then q else q + 1)
        in sgn n * (q' * 2 ^ nat e))"

text \<open>
  \<^verbatim>\<open>column >= bound\<close> and \<^verbatim>\<open>column <= bound\<close>, cell by cell. An int64 cell against
  an \<^verbatim>\<open>int\<close> and a float64 cell against a \<^verbatim>\<open>float\<close> are compared as they are. An int64
  column against a \<^verbatim>\<open>float\<close> is converted to float64 first, and so is an \<^verbatim>\<open>int\<close> bound
  against a float64 column. The cell \<open>c\<close> of an int64 column is the integer \<open>\<lfloor>c\<rfloor>\<close>.
\<close>

fun np_ge :: "dtype \<Rightarrow> real \<Rightarrow> number \<Rightarrow> bool" where
  "np_ge Int64 c (PyInt n) = (c \<ge> real_of_int n)"
| "np_ge Int64 c (PyFloat x) = (real_of_int (round_f64 \<lfloor>c\<rfloor>) \<ge> x)"
| "np_ge Float64 c (PyInt n) = (c \<ge> real_of_int (round_f64 n))"
| "np_ge Float64 c (PyFloat x) = (c \<ge> x)"

fun np_le :: "dtype \<Rightarrow> real \<Rightarrow> number \<Rightarrow> bool" where
  "np_le Int64 c (PyInt n) = (c \<le> real_of_int n)"
| "np_le Int64 c (PyFloat x) = (real_of_int (round_f64 \<lfloor>c\<rfloor>) \<le> x)"
| "np_le Float64 c (PyInt n) = (c \<le> real_of_int (round_f64 n))"
| "np_le Float64 c (PyFloat x) = (c \<le> x)"

definition series_ge_typed :: "dtype \<Rightarrow> real list \<Rightarrow> number \<Rightarrow> bool list" where
  "series_ge_typed dt col v = map (\<lambda>c. np_ge dt c v) col"

definition series_le_typed :: "dtype \<Rightarrow> real list \<Rightarrow> number \<Rightarrow> bool list" where
  "series_le_typed dt col v = map (\<lambda>c. np_le dt c v) col"

text \<open>
  \<open>update_scatter\<close> with the comparisons of its first statement as numpy makes them: the
  dtype of the payload column is the first argument, the bounds are Python numbers.
\<close>

fun update_scatter_typed ::
  "dtype \<Rightarrow> 'a launch_scheme list \<Rightarrow> string \<Rightarrow> number list \<Rightarrow>
     error + 'a launch_scheme scatter_fig" where
  "update_scatter_typed dt spacex_df selected_site [low, high] =
     (let mask = series_and (series_ge_typed dt (map payload_mass spacex_df) low)
                            (series_le_typed dt (map payload_mass spacex_df) high);
          filtered_df = getitem_mask spacex_df mask;
          fig = (if selected_site = ''ALL'' then
                   px_scatter filtered_df
                     ''Correlation between Payload and Success for All Launch Sites''
                 else
                   let site_df = getitem_mask filtered_df
                                   (series_eq (map launch_site filtered_df) selected_site)
                   in px_scatter site_df
                        (''Correlation between Payload and Success for site '' @ selected_site))
      in Inr (update_yaxes [0, 1] [''Failure'', ''Success''] fig))"
| "update_scatter_typed dt spacex_df selected_site payload_range = Inl ValueError"

text \<open>
  \<open>has_dtype dt D\<close>: the payloads of \<open>D\<close> are values a column of dtype \<open>dt\<close> holds.
\<close>

fun has_dtype :: "dtype \<Rightarrow> 'a launch_scheme list \<Rightarrow> bool" where
  "has_dtype Int64 D \<longleftrightarrow>
     list_all (\<lambda>r. real_of_int \<lfloor>payload_mass r\<rfloor> = payload_mass r \<and>
                  - (2 ^ 63) \<le> payload_mass r \<and> payload_mass r < 2 ^ 63) D"
| "has_dtype Float64 D \<longleftrightarrow> True"

text \<open>
  \<open>compared_exactly dt D b\<close>: comparing the payloads of \<open>D\<close> with the bound \<open>b\<close> converts
  nothing, or converts only integers of magnitude at most \<open>2 ^ 53\<close>.
\<close>

fun compared_exactly :: "dtype \<Rightarrow> 'a launch_scheme list \<Rightarrow> number \<Rightarrow> bool" where
  "compared_exactly Int64 D (PyInt n) \<longleftrightarrow> True"
| "compared_exactly Int64 D (PyFloat x) \<longleftrightarrow> list_all (\<lambda>r. \<bar>payload_mass r\<bar> \<le> 2 ^ 53) D"
| "compared_exactly Float64 D (PyInt n) \<longleftrightarrow> \<bar>n\<bar> \<le> 2 ^ 53"
| "compared_exactly Float64 D (PyFloat x) \<longleftrightarrow> True"

section \<open>The payload range slider\<close>

text \<open>
  \<^verbatim>\<open>int(v)\<close> on a float raises \<^verbatim>\<open>ValueError\<close> for NaN and truncates any other
  value toward zero.
\<close>

definition trunc_zero :: "real \<Rightarrow> int" where
  "trunc_zero c = (if 0 \<le> c then \<lfloor>c\<rfloor> else \<lceil>c\<rceil>)"

definition py_int :: "real option \<Rightarrow> error + int" where
  "py_int v = (case v of None \<Rightarrow> Inl ValueError | Some c \<Rightarrow> Inr (trunc_zero c))"

text \<open>
  \<^verbatim>\<open>max_payload - min_payload\<close> on float64 values is infinite when the difference is
  beyond the largest float64, that is at least \<open>2 ^ 1024 - 2 ^ 970\<close>; no difference of
  two int64 values is.
\<close>

definition float64_overflow :: "real \<Rightarrow> bool" where
  "float64_overflow x \<longleftrightarrow> 2 ^ 1024 - 2 ^ 970 \<le> \<bar>x\<bar>"

text \<open>
  The step of the marks, \<^verbatim>\<open>int((max_payload-min_payload)//5 or 1)\<close>, as far as it can
  raise: of NaN, and of an infinite difference, the floor division is NaN, which
  \<^verbatim>\<open>or 1\<close> keeps and \<^verbatim>\<open>int\<close> refuses. The value of the step and the marks made with it
  are not modelled: nothing below reads them.
\<close>

definition marks_step :: "real option \<Rightarrow> real option \<Rightarrow> error + unit" where
  "marks_step min_payload max_payload =
     (case (min_payload, max_payload) of
        (Some lo, Some hi) \<Rightarrow> if float64_overflow (hi - lo) then Inl ValueError else Inr ()
      | _ \<Rightarrow> Inl ValueError)"

text \<open>
  The \<^verbatim>\<open>dcc.RangeSlider\<close> of the layout, built when the module is loaded from
  \<^verbatim>\<open>min_payload\<close> and \<^verbatim>\<open>max_payload\<close>: its bounds, its step and its default
  value, the arguments evaluated in the order of the call.
\<close>

record range_slider =
  rs_min :: int
  rs_max :: int
  rs_step :: int
  rs_value :: "int list"

definition payload_slider :: "'a launch_scheme list \<Rightarrow> error + range_slider" where
  "payload_slider spacex_df =
     (let min_payload = series_min (map payload_mass spacex_df);
          max_payload = series_max (map payload_mass spacex_df)
      in case py_int min_payload of
           Inl e \<Rightarrow> Inl e
         | Inr lo \<Rightarrow>
             (case py_int max_payload of
                Inl e \<Rightarrow> Inl e
              | Inr hi \<Rightarrow>
                  (case marks_step min_payload max_payload of
                     Inl e \<Rightarrow> Inl e
                   | Inr _ \<Rightarrow>
                       Inr \<lparr>rs_min = lo, rs_max = hi, rs_step = 100, rs_value = [lo, hi]\<rparr>)))"

section \<open>The callbacks on the program's objects\<close>

text \<open>
  The functions above compute what the callbacks return. To say what a call does to the
  program, the callbacks are given once more as Python runs them: over a store of objects,
  a variable holding a reference (an index into the store). Every pandas and plotly call of
  the callbacks returns a new object (\<^verbatim>\<open>df[mask]\<close>, \<^verbatim>\<open>groupby(...).size().reset_index()\<close>,
  \<^verbatim>\<open>value_counts().reset_index()\<close>, \<^verbatim>\<open>px.pie\<close>, \<^verbatim>\<open>px.scatter\<close>); the three
  assignments \<^verbatim>\<open>outcome_counts.columns = ...\<close>, \<^verbatim>\<open>outcome_counts['class'] = ...\<close> and
  \<^verbatim>\<open>fig.update_yaxes(...)\<close> write to the object their variable refers to.

  A frame of counts has a column of cells and a column of counts; renaming its columns
  leaves both as they are. Reading a reference that holds no object of the kind the
  statement needs raises \<^verbatim>\<open>TypeError\<close>.
\<close>

datatype 'r object =
    DataFrame "'r list"
  | CountFrame "(cell \<times> nat) list"
  | PieFigure pie_fig
  | ScatterFigure "'r scatter_fig"

text \<open>
  The state: the store, and the module-level variables (\<^verbatim>\<open>spacex_df\<close> is a reference
  to the frame read from the file).
\<close>

record 'r program_state =
  objects :: "'r object list"
  spacex_df :: nat
  min_payload :: "real option"
  max_payload :: "real option"
  launch_sites :: "string list"

text \<open>
  A statement takes the state to a value or a raised error, and the state it leaves.
  \<open>and_then\<close> runs the next statement unless an error was raised.
\<close>

type_synonym ('r, 'a) action = "'r program_state \<Rightarrow> (error + 'a) \<times> 'r program_state"

definition succeed :: "'a \<Rightarrow> ('r, 'a) action" where
  "succeed a st = (Inr a, st)"

definition raise :: "error \<Rightarrow> ('r, 'a) action" where
  "raise e st = (Inl e, st)"

definition and_then :: "('r, 'a) action \<Rightarrow> ('a \<Rightarrow> ('r, 'b) action) \<Rightarrow> ('r, 'b) action" where
  "and_then m f st = (case m st of (Inl e, st') \<Rightarrow> (Inl e, st') | (Inr a, st') \<Rightarrow> f a st')"

definition new_object :: "'r object \<Rightarrow> ('r, nat) action" where
  "new_object obj st = (Inr (length (objects st)), st\<lparr>objects := objects st @ [obj]\<rparr>)"

definition read_object :: "nat \<Rightarrow> ('r, 'r object) action" where
  "read_object ref st =
     (if ref < length (objects st) then (Inr (objects st ! ref), st) else (Inl TypeError, st))"

definition write_object :: "nat \<Rightarrow> 'r object \<Rightarrow> ('r, unit) action" where
  "write_object ref obj st =
     (if ref < length (objects st) then (Inr (), st\<lparr>objects := (objects st)[ref := obj]\<rparr>)
      else (Inl TypeError, st))"

definition read_frame :: "nat \<Rightarrow> ('r, 'r list) action" where
  "read_frame ref =
     and_then (read_object ref) (\<lambda>obj. case obj of DataFrame df \<Rightarrow> succeed df | _ \<Rightarrow> raise TypeError)"

definition read_counts :: "nat \<Rightarrow> ('r, (cell \<times> nat) list) action" where
  "read_counts ref =
     and_then (read_object ref) (\<lambda>obj. case obj of CountFrame rows \<Rightarrow> succeed rows | _ \<Rightarrow> raise TypeError)"

definition read_scatter :: "nat \<Rightarrow> ('r, 'r scatter_fig) action" where
  "read_scatter ref =
     and_then (read_object ref) (\<lambda>obj. case obj of ScatterFigure f \<Rightarrow> succeed f | _ \<Rightarrow> raise TypeError)"

text \<open>\<^verbatim>\<open>.replace({1: 'Success', 0: 'Failure'})\<close> on a column of cells.\<close>

definition replace_cell :: "cell \<Rightarrow> cell" where
  "replace_cell c = (case c of Number v \<Rightarrow> replace_class v | Text s \<Rightarrow> Text s)"

text \<open>
  \<open>update_pie_chart\<close> statement by statement. In the second branch the first write to
  \<open>outcome_counts\<close> is \<^verbatim>\<open>outcome_counts.columns = ['class', 'count']\<close> and the second
  is \<^verbatim>\<open>outcome_counts['class'] = outcome_counts['class'].replace(...)\<close>.
\<close>

definition update_pie_chart_st :: "string \<Rightarrow> ('a launch_scheme, nat) action" where
  "update_pie_chart_st selected_site =
     and_then (\<lambda>st. read_frame (spacex_df st) st) (\<lambda>df.
       if selected_site = ''ALL'' then
         and_then (new_object (CountFrame (map (\<lambda>(s, n). (Text s, n))
             (groupby_size (map launch_site
                (getitem_mask df (series_eq (map launch_class df) 1))))))) (\<lambda>success_counts.
         and_then (read_counts success_counts) (\<lambda>rows.
         new_object (PieFigure (px_pie rows ''Total Successful Launches by Site''))))
       else
         and_then (new_object (DataFrame
             (getitem_mask df (series_eq (map launch_site df) selected_site)))) (\<lambda>filtered_df.
         and_then (read_frame filtered_df) (\<lambda>fdf.
         and_then (new_object (CountFrame (map (\<lambda>(c, n). (Number c, n))
             (value_counts (map launch_class fdf))))) (\<lambda>outcome_counts.
         and_then (read_counts outcome_counts) (\<lambda>rows.
         and_then (write_object outcome_counts (CountFrame rows)) (\<lambda>_.
         and_then (read_counts outcome_counts) (\<lambda>rows.
         and_then (write_object outcome_counts
             (CountFrame (map (\<lambda>(c, n). (replace_cell c, n)) rows))) (\<lambda>_.
         and_then (read_counts outcome_counts) (\<lambda>rows.
         new_object (PieFigure (px_pie rows (''Success vs Failure for '' @ selected_site))))))))))))"

text \<open>
  \<open>update_scatter\<close> statement by statement. The write to \<open>fig\<close> is
  \<^verbatim>\<open>fig.update_yaxes(tickvals=[0,1], ticktext=['Failure','Success'])\<close>.
\<close>

definition update_scatter_st :: "string \<Rightarrow> real list \<Rightarrow> ('a launch_scheme, nat) action" where
  "update_scatter_st selected_site payload_range =
     (case payload_range of
        [low, high] \<Rightarrow>
          and_then (\<lambda>st. read_frame (spacex_df st) st) (\<lambda>df.
          and_then (new_object (DataFrame (getitem_mask df
              (series_and (series_ge (map payload_mass df) low)
                          (series_le (map payload_mass df) high))))) (\<lambda>filtered_df.
          and_then (read_frame filtered_df) (\<lambda>fdf.
          and_then
            (if selected_site = ''ALL'' then
               new_object (ScatterFigure (px_scatter fdf
                 ''Correlation between Payload and Success for All Launch Sites''))
             else
               and_then (new_object (DataFrame
                   (getitem_mask fdf (series_eq (map launch_site fdf) selected_site)))) (\<lambda>site_df.
               and_then (read_frame site_df) (\<lambda>sdf.
               new_object (ScatterFigure (px_scatter sdf
                 (''Correlation between Payload and Success for site '' @ selected_site))))))
            (\<lambda>fig.
          and_then (read_scatter fig) (\<lambda>f.
          and_then (write_object fig
              (ScatterFigure (update_yaxes [0, 1] [''Failure'', ''Success''] f))) (\<lambda>_.
          succeed fig))))))
      | _ \<Rightarrow> raise ValueError)"

text \<open>The frame \<^verbatim>\<open>spacex_df\<close> refers to, if it refers to one.\<close>

definition dataset :: "'r program_state \<Rightarrow> 'r list option" where
  "dataset st =
     (if spacex_df st < length (objects st) then
        (case objects st ! spacex_df st of DataFrame df \<Rightarrow> Some df | _ \<Rightarrow> None)
      else None)"

text \<open>
  \<open>extends st st'\<close>: \<open>st'\<close> is \<open>st\<close> with objects added at the end of the store. Every
  object of \<open>st\<close> and every module-level variable is in \<open>st'\<close> what it is in \<open>st\<close>.
\<close>

definition extends :: "'r program_state \<Rightarrow> 'r program_state \<Rightarrow> bool" where
  "extends st st' \<longleftrightarrow>
     st' = st\<lparr>objects := objects st @ drop (length (objects st)) (objects st')\<rparr>"

text \<open>The state after the module is loaded on a frame.\<close>

definition load :: "'a launch_scheme list \<Rightarrow> 'a launch_scheme program_state" where
  "load df =
     \<lparr>objects = [DataFrame df], spacex_df = 0,
      min_payload = series_min (map payload_mass df),
      max_payload = series_max (map payload_mass df),
      launch_sites = unique (map launch_site df)\<rparr>"

text \<open>
  \<open>keeps n Q m\<close>: run in a state with at least \<open>n\<close> objects, \<open>m\<close> leaves the first \<open>n\<close>
  objects and the variables as they are, and a value it returns satisfies \<open>Q\<close>.
\<close>

definition keeps :: "nat \<Rightarrow> ('a \<Rightarrow> bool) \<Rightarrow> ('r, 'a) action \<Rightarrow> bool" where
  "keeps n Q m \<longleftrightarrow>
     (\<forall>st. n \<le> length (objects st) \<longrightarrow>
        n \<le> length (objects (snd (m st))) \<and>
        (snd (m st))\<lparr>objects := take n (objects (snd (m st)))\<rparr> = st\<lparr>objects := take n (objects st)\<rparr> \<and>
        (\<forall>a. fst (m st) = Inr a \<longrightarrow> Q a))"

section \<open>Example datasets\<close>

text \<open>Three launches on two sites, and the same with a site that only has a failure.\<close>

definition spec_example :: "launch list" where
  "spec_example =
     [\<lparr>launch_site = ''A'', payload_mass = 500, booster_version = ''v1'', launch_class = 1\<rparr>,
      \<lparr>launch_site = ''A'', payload_mass = 800, booster_version = ''v1'', launch_class = 0\<rparr>,
      \<lparr>launch_site = ''B'', payload_mass = 600, booster_version = ''v2'', launch_class = 1\<rparr>]"

definition failures_example :: "launch list" where
  "failures_example = spec_example @
     [\<lparr>launch_site = ''C'', payload_mass = 700, booster_version = ''v2'', launch_class = 0\<rparr>]"

text \<open>Two launches whose payloads are not whole numbers.\<close>

definition frac_example :: "launch list" where
  "frac_example =
     [\<lparr>launch_site = ''A'', payload_mass = 725 / 2, booster_version = ''v1'', launch_class = 1\<rparr>,
      \<lparr>launch_site = ''B'', payload_mass = 38403 / 4, booster_version = ''v2'', launch_class = 0\<rparr>]"

text \<open>
  A launch whose payload is \<open>2 ^ 53 + 1\<close>, for an int64 column, and one whose payload is
  \<open>2 ^ 53\<close>, for a float64 column; two launches whose payloads are \<open>1e308\<close> apart from 0.
\<close>

definition big_int_example :: "launch list" where
  "big_int_example =
     [\<lparr>launch_site = ''A'', payload_mass = 9007199254740993, booster_version = ''v1'', launch_class = 1\<rparr>]"

definition big_float_example :: "launch list" where
  "big_float_example =
     [\<lparr>launch_site = ''A'', payload_mass = 9007199254740992, booster_version = ''v1'', launch_class = 1\<rparr>]"

definition spread_example :: "launch list" where
  "spread_example =
     [\<lparr>launch_site = ''A'', payload_mass = - (10 ^ 308), booster_version = ''v1'', launch_class = 1\<rparr>,
      \<lparr>launch_site = ''B'', payload_mass = 10 ^ 308, booster_version = ''v2'', launch_class = 0\<rparr>]"

section \<open>Masks and filters\<close>

lemma getitem_mask_map: "getitem_mask df (map P df) = filter P df"
  by (induction df) (simp_all add: getitem_mask_def)

lemma series_ge_map: "series_ge (map f df) v = map (\<lambda>r. v \<le> f r) df"
  by (simp add: series_ge_def comp_def)

lemma series_le_map: "series_le (map f df) v = map (\<lambda>r. f r \<le> v) df"
  by (simp add: series_le_def comp_def)

lemma series_eq_map: "series_eq (map f df) v = map (\<lambda>r. f r = v) df"
  by (simp add: series_eq_def comp_def)

lemma series_and_map: "series_and (map P df) (map Q df) = map (\<lambda>r. P r \<and> Q r) df"
  by (induction df) (simp_all add: series_and_def)

lemmas mask_simps = series_ge_map series_le_map series_eq_map series_and_map getitem_mask_map

section \<open>The scatter chart\<close>

lemma update_scatter_filter:
  "update_scatter D s [lo, hi] =
     Inr (update_yaxes [0, 1] [''Failure'', ''Success'']
       (px_scatter (filter (\<lambda>r. lo \<le> payload_mass r \<and> payload_mass r \<le> hi \<and>
                    (s = ''ALL'' \<or> launch_site r = s)) D) (scatter_title s)))"
  by (auto simp add: mask_simps Let_def scatter_title_def intro: filter_cong)

declare update_scatter.simps [simp del]

lemma sc_data_frame_update_yaxes: "sc_data_frame (update_yaxes tv tt (px_scatter df t)) = df"
  by (simp add: update_yaxes_def px_scatter_def)

lemma series_min_None: "series_min col = None \<longleftrightarrow> col = []"
  by (cases col) (auto split: option.splits)

lemma series_max_None: "series_max col = None \<longleftrightarrow> col = []"
  by (cases col) (auto split: option.splits)

lemma series_min_lower: "series_min (map f D) = Some m \<Longrightarrow> r \<in> set D \<Longrightarrow> m \<le> f r"
  by (induction D arbitrary: m) (auto split: option.splits simp: series_min_None)

lemma series_max_upper: "series_max (map f D) = Some m \<Longrightarrow> r \<in> set D \<Longrightarrow> f r \<le> m"
  by (induction D arbitrary: m) (auto split: option.splits simp: series_max_None)

text \<open>
  Compared as they are, no payload is in a range with \<open>hi < lo\<close>, or in one that lies
  below the smallest or above the largest payload.
\<close>

lemma update_scatter_exact_empty_range:
  assumes "hi < lo \<or> (\<exists>m. series_min (map payload_mass D) = Some m \<and> hi < m)
             \<or> (\<exists>M. series_max (map payload_mass D) = Some M \<and> M < lo)"
  shows "\<exists>fig. update_scatter D s [lo, hi] = Inr fig \<and> sc_data_frame fig = []"
proof -
  have out: "\<not> (lo \<le> payload_mass r \<and> payload_mass r \<le> hi)" if "r \<in> set D" for r
    using assms
  proof (elim disjE exE conjE)
    assume "hi < lo" then show ?thesis by linarith
  next
    fix m assume "series_min (map payload_mass D) = Some m" "hi < m"
    with series_min_lower [of payload_mass D m r] that show ?thesis by force
  next
    fix M assume "series_max (map payload_mass D) = Some M" "M < lo"
    with series_max_upper [of payload_mass D M r] that show ?thesis by force
  qed
  have "filter (\<lambda>r. lo \<le> payload_mass r \<and> payload_mass r \<le> hi \<and>
                    (s = ''ALL'' \<or> launch_site r = s)) D = []"
    using out by (auto simp add: filter_empty_conv)
  then show ?thesis
    by (simp add: update_scatter_filter sc_data_frame_update_yaxes)
qed

text \<open>
  C7. With the payload range \<open>[min, max]\<close> of the dataset's payloads and the site filter
  \<open>ALL\<close>, the figure of \<open>update_scatter\<close> has every row of the dataset (an empty
  dataset has no minimum; its figure has no rows for any range).
\<close>

theorem update_scatter_full_range:
  assumes "series_min (map payload_mass D) = Some lo"
    and "series_max (map payload_mass D) = Some hi"
  shows "\<exists>fig. update_scatter D ''ALL'' [lo, hi] = Inr fig \<and> sc_data_frame fig = D"
proof -
  have "filter (\<lambda>r. lo \<le> payload_mass r \<and> payload_mass r \<le> hi \<and>
                    (''ALL'' = ''ALL'' \<or> launch_site r = ''ALL'')) D = D"
    using series_min_lower [OF assms(1)] series_max_upper [OF assms(2)]
    by (simp add: filter_id_conv)
  then show ?thesis
    by (simp only: update_scatter_filter sc_data_frame_update_yaxes sum.inject simp_thms ex_simps)
qed

theorem update_scatter_full_range_witness:
  "series_min (map payload_mass spec_example) = Some 500 \<and>
   series_max (map payload_mass spec_example) = Some 800 \<and>
   (\<exists>fig. update_scatter spec_example ''ALL'' [500, 800] = Inr fig \<and> sc_data_frame fig = spec_example)"
  using update_scatter_full_range [of spec_example 500 800]
  by (simp add: spec_example_def)

text \<open>
  C9. For every dataset, site filter and payload range, the figure of \<open>update_scatter\<close>
  has the y-axis tick values \<open>[0, 1]\<close> with the tick texts \<open>Failure\<close> for 0 and
  \<open>Success\<close> for 1.
\<close>

theorem update_scatter_yaxis:
  "\<exists>fig tv tt. update_scatter D s [lo, hi] = Inr fig \<and>
     sc_tickvals fig = Some tv \<and> sc_ticktext fig = Some tt \<and>
     tv = [0, 1] \<and> tt = [''Failure'', ''Success''] \<and> set tv = {0, 1} \<and>
     map_of (zip tv tt) 0 = Some ''Failure'' \<and> map_of (zip tv tt) 1 = Some ''Success''"
  by (auto simp add: update_scatter_filter update_yaxes_def px_scatter_def)

theorem update_scatter_yaxis_witness:
  "\<exists>fig. update_scatter spec_example ''A'' [550, 1000] = Inr fig \<and>
     sc_tickvals fig = Some [0, 1] \<and> sc_ticktext fig = Some [''Failure'', ''Success'']"
proof -
  from update_scatter_yaxis [of spec_example "''A''" 550 1000]
  obtain fig tv tt where "update_scatter spec_example ''A'' [550, 1000] = Inr fig"
    and "sc_tickvals fig = Some tv" and "sc_ticktext fig = Some tt"
    and "tv = [0, 1]" and "tt = [''Failure'', ''Success'']"
    by blast
  then show ?thesis by blast
qed

section \<open>The scatter chart with numpy's comparisons\<close>

lemma bitlen_2_53: "bitlen 9007199254740992 = 54"
  using bitlen_twopow_add_eq [of 0 53] by simp

lemma bitlen_2_53_1: "bitlen 9007199254740993 = 54"
  using bitlen_twopow_add_eq [of 1 53] by simp

lemma round_f64_small:
  assumes "\<bar>n\<bar> \<le> 2 ^ 53"
  shows "round_f64 n = n"
proof (cases "\<bar>n\<bar> < 2 ^ 53")
  case True
  then have "bitlen \<bar>n\<bar> \<le> 53"
    by (simp add: bitlen_le_iff_power)
  then show ?thesis by (simp add: round_f64_def)
next
  case False
  with assms have a: "\<bar>n\<bar> = 9007199254740992" by simp
  then have "n = 9007199254740992 \<or> n = - 9007199254740992" by linarith
  then show ?thesis
    by (auto simp add: round_f64_def bitlen_2_53 Let_def)
qed

lemma round_f64_2_53_1: "round_f64 9007199254740993 = 9007199254740992"
  by (simp add: round_f64_def bitlen_2_53_1 Let_def)


lemma bitlen_2_53_2: "bitlen 9007199254740994 = 54"
  using bitlen_twopow_add_eq [of 2 53] by simp

lemma round_f64_2_53_2: "round_f64 9007199254740994 = 9007199254740994"
  by (simp add: round_f64_def bitlen_2_53_2 Let_def)

lemma round_f64_whole:
  assumes "real_of_int \<lfloor>c\<rfloor> = c" and "\<bar>c\<bar> \<le> 2 ^ 53"
  shows "real_of_int (round_f64 \<lfloor>c\<rfloor>) = c"
proof -
  define n where "n = \<lfloor>c\<rfloor>"
  have c: "c = real_of_int n"
    unfolding n_def using assms(1) by (rule sym)
  with assms(2) have "real_of_int \<bar>n\<bar> \<le> real_of_int (2 ^ 53)"
    by simp
  then have "\<bar>n\<bar> \<le> 2 ^ 53"
    by (simp only: of_int_le_iff)
  then have "round_f64 n = n"
    by (rule round_f64_small)
  then show ?thesis
    unfolding n_def [symmetric] using c by simp
qed

text \<open>Where nothing is rounded the typed comparisons are those of the values.\<close>

lemma np_ge_exact:
  "has_dtype dt D \<Longrightarrow> compared_exactly dt D b \<Longrightarrow> r \<in> set D \<Longrightarrow>
     np_ge dt (payload_mass r) b \<longleftrightarrow> number_value b \<le> payload_mass r"
  by (cases dt; cases b) (auto simp add: list_all_iff round_f64_small round_f64_whole)

lemma np_le_exact:
  "has_dtype dt D \<Longrightarrow> compared_exactly dt D b \<Longrightarrow> r \<in> set D \<Longrightarrow>
     np_le dt (payload_mass r) b \<longleftrightarrow> payload_mass r \<le> number_value b"
  by (cases dt; cases b) (auto simp add: list_all_iff round_f64_small round_f64_whole)

lemma series_ge_typed_map: "series_ge_typed dt (map f df) v = map (\<lambda>r. np_ge dt (f r) v) df"
  by (simp add: series_ge_typed_def comp_def)

lemma series_le_typed_map: "series_le_typed dt (map f df) v = map (\<lambda>r. np_le dt (f r) v) df"
  by (simp add: series_le_typed_def comp_def)

lemma update_scatter_typed_filter:
  "update_scatter_typed dt D s [lo, hi] =
     Inr (update_yaxes [0, 1] [''Failure'', ''Success'']
       (px_scatter (filter (\<lambda>r. np_ge dt (payload_mass r) lo \<and> np_le dt (payload_mass r) hi \<and>
                    (s = ''ALL'' \<or> launch_site r = s)) D) (scatter_title s)))"
  by (auto simp add: mask_simps series_ge_typed_map series_le_typed_map Let_def scatter_title_def
      intro: filter_cong)

declare update_scatter_typed.simps [simp del]

lemma update_scatter_typed_exact:
  assumes "has_dtype dt D" and "compared_exactly dt D lo" and "compared_exactly dt D hi"
  shows "update_scatter_typed dt D s [lo, hi] = update_scatter D s [number_value lo, number_value hi]"
proof -
  have "filter (\<lambda>r. np_ge dt (payload_mass r) lo \<and> np_le dt (payload_mass r) hi \<and>
                    (s = ''ALL'' \<or> launch_site r = s)) D =
        filter (\<lambda>r. number_value lo \<le> payload_mass r \<and> payload_mass r \<le> number_value hi \<and>
                    (s = ''ALL'' \<or> launch_site r = s)) D"
    by (rule filter_cong [OF refl])
      (simp add: np_ge_exact [OF assms(1,2)] np_le_exact [OF assms(1,3)])
  then show ?thesis
    by (simp add: update_scatter_typed_filter update_scatter_filter)
qed

text \<open>
  C1, as the code has it. For a dataset whose payload column is int64 or float64, every
  site filter and every payload range \<open>[lo, hi]\<close> of floats and of integers in the int64
  range, \<open>update_scatter\<close> returns a figure whose rows are the rows of the dataset for
  which numpy's \<open>payload >= lo\<close> and \<open>payload <= hi\<close> hold and (the filter is \<open>ALL\<close> or
  the row's site is the filter), each occurrence once and in the dataset's order. Where
  the comparisons convert nothing, or only integers up to \<open>2 ^ 53\<close> in magnitude, these
  are the rows with \<open>lo \<le> payload \<le> hi\<close>.
\<close>

theorem update_scatter_typed_rows:
  assumes "has_dtype dt D" and "int64_range lo" and "int64_range hi"
  shows "(\<exists>fig. update_scatter_typed dt D s [lo, hi] = Inr fig \<and>
            sc_data_frame fig =
              filter (\<lambda>r. np_ge dt (payload_mass r) lo \<and> np_le dt (payload_mass r) hi \<and>
                           (s = ''ALL'' \<or> launch_site r = s)) D) \<and>
         (compared_exactly dt D lo \<and> compared_exactly dt D hi \<longrightarrow>
            (\<exists>fig. update_scatter_typed dt D s [lo, hi] = Inr fig \<and>
               sc_data_frame fig =
                 filter (\<lambda>r. number_value lo \<le> payload_mass r \<and> payload_mass r \<le> number_value hi \<and>
                              (s = ''ALL'' \<or> launch_site r = s)) D))"
proof (intro conjI impI)
  show "\<exists>fig. update_scatter_typed dt D s [lo, hi] = Inr fig \<and>
            sc_data_frame fig =
              filter (\<lambda>r. np_ge dt (payload_mass r) lo \<and> np_le dt (payload_mass r) hi \<and>
                           (s = ''ALL'' \<or> launch_site r = s)) D"
    by (simp add: update_scatter_typed_filter sc_data_frame_update_yaxes)
next
  assume "compared_exactly dt D lo \<and> compared_exactly dt D hi"
  then have "update_scatter_typed dt D s [lo, hi] =
             update_scatter D s [number_value lo, number_value hi]"
    by (simp add: update_scatter_typed_exact [OF assms(1)])
  then show "\<exists>fig. update_scatter_typed dt D s [lo, hi] = Inr fig \<and>
               sc_data_frame fig =
                 filter (\<lambda>r. number_value lo \<le> payload_mass r \<and> payload_mass r \<le> number_value hi \<and>
                              (s = ''ALL'' \<or> launch_site r = s)) D"
    by (simp add: update_scatter_filter sc_data_frame_update_yaxes)
qed

theorem update_scatter_typed_rows_witness:
  "has_dtype Int64 spec_example \<and> int64_range (PyInt 550) \<and> int64_range (PyFloat 1000) \<and>
   compared_exactly Int64 spec_example (PyInt 550) \<and>
   compared_exactly Int64 spec_example (PyFloat 1000) \<and>
   (\<exists>fig. update_scatter_typed Int64 spec_example ''A'' [PyInt 550, PyFloat 1000] = Inr fig \<and>
      sc_data_frame fig = [spec_example ! 1])"
  using update_scatter_typed_rows [of Int64 spec_example "PyInt 550" "PyFloat 1000" "''A''"]
  by (simp add: spec_example_def)

text \<open>
  An int64 payload of \<open>2 ^ 53 + 1\<close> against the float bounds 0 and \<open>2 ^ 53\<close>: the payload
  is converted to the float64 \<open>2 ^ 53\<close> and the row is kept, though its payload is above
  the upper bound.
\<close>

theorem update_scatter_rows_counterexample:
  "has_dtype Int64 big_int_example \<and>
   map_sum id sc_data_frame
     (update_scatter_typed Int64 big_int_example ''ALL'' [PyFloat 0, PyFloat 9007199254740992]) =
     Inr big_int_example \<and>
   payload_mass (big_int_example ! 0) > 9007199254740992"
  by (simp add: update_scatter_typed_filter sc_data_frame_update_yaxes big_int_example_def
      round_f64_2_53_1)

text \<open>
  C5, as the code has it. For a dataset whose payload column is int64 or float64 and a
  payload range of floats and of integers in the int64 range, \<open>update_scatter\<close> does not
  raise. Where the comparisons convert nothing, or only integers up to \<open>2 ^ 53\<close> in
  magnitude, a range with \<open>hi < lo\<close>, or wholly below the smallest or wholly above the
  largest payload, gives a figure with no rows, for every site filter.
\<close>

theorem update_scatter_typed_empty_range:
  assumes "has_dtype dt D" and "int64_range lo" and "int64_range hi"
  shows "(\<exists>fig. update_scatter_typed dt D s [lo, hi] = Inr fig) \<and>
         (compared_exactly dt D lo \<and> compared_exactly dt D hi \<and>
          (number_value hi < number_value lo \<or>
           (\<exists>m. series_min (map payload_mass D) = Some m \<and> number_value hi < m) \<or>
           (\<exists>M. series_max (map payload_mass D) = Some M \<and> M < number_value lo)) \<longrightarrow>
            (\<exists>fig. update_scatter_typed dt D s [lo, hi] = Inr fig \<and> sc_data_frame fig = []))"
proof (intro conjI impI)
  show "\<exists>fig. update_scatter_typed dt D s [lo, hi] = Inr fig"
    by (simp add: update_scatter_typed_filter)
next
  assume a: "compared_exactly dt D lo \<and> compared_exactly dt D hi \<and>
          (number_value hi < number_value lo \<or>
           (\<exists>m. series_min (map payload_mass D) = Some m \<and> number_value hi < m) \<or>
           (\<exists>M. series_max (map payload_mass D) = Some M \<and> M < number_value lo))"
  then have "update_scatter_typed dt D s [lo, hi] =
             update_scatter D s [number_value lo, number_value hi]"
    by (simp add: update_scatter_typed_exact [OF assms(1)])
  moreover from a have "\<exists>fig. update_scatter D s [number_value lo, number_value hi] = Inr fig \<and>
      sc_data_frame fig = []"
    by (intro update_scatter_exact_empty_range) blast
  ultimately show "\<exists>fig. update_scatter_typed dt D s [lo, hi] = Inr fig \<and> sc_data_frame fig = []"
    by simp
qed

theorem update_scatter_typed_empty_range_witness:
  "has_dtype Float64 spec_example \<and> int64_range (PyInt 900) \<and> int64_range (PyFloat 100) \<and>
   (\<exists>fig. update_scatter_typed Float64 spec_example ''ALL'' [PyInt 900, PyFloat 100] = Inr fig \<and>
      sc_data_frame fig = []) \<and>
   (\<exists>fig. update_scatter_typed Float64 spec_example ''A'' [PyFloat 0, PyFloat 499] = Inr fig \<and>
      sc_data_frame fig = []) \<and>
   (\<exists>fig. update_scatter_typed Int64 spec_example ''B'' [PyInt 801, PyFloat 9000] = Inr fig \<and>
      sc_data_frame fig = [])"
  using update_scatter_typed_empty_range [of Float64 spec_example "PyInt 900" "PyFloat 100" "''ALL''"]
    update_scatter_typed_empty_range [of Float64 spec_example "PyFloat 0" "PyFloat 499" "''A''"]
    update_scatter_typed_empty_range [of Int64 spec_example "PyInt 801" "PyFloat 9000" "''B''"]
  by (simp add: spec_example_def)

text \<open>
  A float64 payload of \<open>2 ^ 53\<close>, which is the largest, against the integer bounds
  \<open>2 ^ 53 + 1\<close> and \<open>2 ^ 53 + 2\<close>, a range wholly above it, and against the lower bound
  \<open>2 ^ 53 + 1\<close> with the upper bound \<open>2 ^ 53\<close>, an empty range: the lower bound is
  converted to the float64 \<open>2 ^ 53\<close> and the row is kept both times.
\<close>

theorem update_scatter_empty_range_counterexample:
  "series_max (map payload_mass big_float_example) = Some 9007199254740992 \<and>
   number_value (PyInt 9007199254740993) > 9007199254740992 \<and>
   map_sum id sc_data_frame
     (update_scatter_typed Float64 big_float_example ''ALL''
        [PyInt 9007199254740993, PyInt 9007199254740994]) = Inr big_float_example \<and>
   number_value (PyFloat 9007199254740992) < number_value (PyInt 9007199254740993) \<and>
   map_sum id sc_data_frame
     (update_scatter_typed Float64 big_float_example ''ALL''
        [PyInt 9007199254740993, PyFloat 9007199254740992]) = Inr big_float_example"
  by (simp add: update_scatter_typed_filter sc_data_frame_update_yaxes big_float_example_def
      round_f64_2_53_1 round_f64_2_53_2)

text \<open>
  What is shown above of \<open>update_scatter\<close> for an unknown site, for the range of the
  column's own minimum and maximum and for the ticks holds with numpy's comparisons too.
\<close>

lemma update_scatter_typed_unknown_site:
  assumes "S \<noteq> ''ALL''" and "S \<notin> launch_site ` set D"
  shows "\<exists>fig. update_scatter_typed dt D S [lo, hi] = Inr fig \<and> sc_data_frame fig = []"
proof -
  have "filter (\<lambda>r. np_ge dt (payload_mass r) lo \<and> np_le dt (payload_mass r) hi \<and>
                    (S = ''ALL'' \<or> launch_site r = S)) D = []"
    using assms by (auto simp add: filter_empty_conv)
  then show ?thesis
    by (simp add: update_scatter_typed_filter sc_data_frame_update_yaxes)
qed

lemma update_scatter_typed_full_range:
  assumes "series_min (map payload_mass D) = Some (number_value lo)"
    and "series_max (map payload_mass D) = Some (number_value hi)"
    and "has_dtype dt D" and "compared_exactly dt D lo" and "compared_exactly dt D hi"
  shows "\<exists>fig. update_scatter_typed dt D ''ALL'' [lo, hi] = Inr fig \<and> sc_data_frame fig = D"
proof -
  have "filter (\<lambda>r. number_value lo \<le> payload_mass r \<and> payload_mass r \<le> number_value hi \<and>
                    (''ALL'' = ''ALL'' \<or> launch_site r = ''ALL'')) D = D"
    using series_min_lower [OF assms(1)] series_max_upper [OF assms(2)]
    by (simp add: filter_id_conv)
  then show ?thesis
    by (simp only: update_scatter_typed_exact [OF assms(3,4,5)] update_scatter_filter
        sc_data_frame_update_yaxes sum.inject simp_thms ex_simps)
qed

lemma update_scatter_typed_yaxis:
  "\<exists>fig. update_scatter_typed dt D s [lo, hi] = Inr fig \<and>
     sc_tickvals fig = Some [0, 1] \<and> sc_ticktext fig = Some [''Failure'', ''Success'']"
  by (simp add: update_scatter_typed_filter update_yaxes_def px_scatter_def)

section \<open>The pie chart, all sites\<close>

lemma count_list_map_filter: "count_list (map f xs) k = length (filter (\<lambda>x. f x = k) xs)"
  by (induction xs) simp_all

lemma sum_list_count_list: "sum_list (map (count_list keys) (sort (remdups keys))) = length keys"
proof -
  have "sum_list (map (count_list keys) (sort (remdups keys))) = sum (count_list keys) (set keys)"
    by (simp add: sum_list_distinct_conv_sum_set)
  also have "\<dots> = length keys"
    by (rule sum_count_set) simp_all
  finally show ?thesis .
qed

lemma update_pie_chart_ALL:
  "update_pie_chart D ''ALL'' =
     px_pie (map (\<lambda>(s, n). (Text s, n))
              (groupby_size (map launch_site (filter (\<lambda>r. launch_class r = 1) D))))
       ''Total Successful Launches by Site''"
  by (simp add: update_pie_chart_def mask_simps)

lemma update_pie_chart_site:
  "s \<noteq> ''ALL'' \<Longrightarrow> update_pie_chart D s =
     px_pie (map (\<lambda>(c, n). (replace_class c, n))
              (value_counts (map launch_class (filter (\<lambda>r. launch_site r = s) D))))
       (''Success vs Failure for '' @ s)"
  by (simp add: update_pie_chart_def mask_simps)

lemma pie_names_ALL:
  "pie_names (update_pie_chart D ''ALL'') =
     map Text (sort (remdups (map launch_site (filter (\<lambda>r. launch_class r = 1) D))))"
  by (simp add: update_pie_chart_ALL px_pie_def groupby_size_def comp_def)

lemma pie_values_ALL:
  "pie_values (update_pie_chart D ''ALL'') =
     map (\<lambda>s. length (filter (\<lambda>r. launch_class r = 1 \<and> launch_site r = s) D))
       (sort (remdups (map launch_site (filter (\<lambda>r. launch_class r = 1) D))))"
  by (simp add: update_pie_chart_ALL px_pie_def groupby_size_def comp_def count_list_map_filter conj_commute)

lemma pie_title_ALL:
  "pie_title (update_pie_chart D ''ALL'') = ''Total Successful Launches by Site''"
  by (simp add: update_pie_chart_ALL px_pie_def)

lemma sum_pie_values_ALL:
  "sum_list (pie_values (update_pie_chart D ''ALL'')) = length (filter (\<lambda>r. launch_class r = 1) D)"
proof -
  let ?keys = "map launch_site (filter (\<lambda>r. launch_class r = 1) D)"
  have "pie_values (update_pie_chart D ''ALL'') = map (count_list ?keys) (sort (remdups ?keys))"
    by (simp add: update_pie_chart_ALL px_pie_def groupby_size_def comp_def)
  then show ?thesis
    using sum_list_count_list [of ?keys] by simp
qed

text \<open>
  C2. With the site filter \<open>ALL\<close>, \<open>update_pie_chart\<close> returns the title
  \<open>Total Successful Launches by Site\<close>, one name per site that has a row of class 1 (the
  site names, each once, in ascending order), for each of them the number of rows of class
  1 on that site, and these counts add up to the number of rows of class 1.
\<close>

theorem update_pie_chart_all_sites:
  "pie_title (update_pie_chart D ''ALL'') = ''Total Successful Launches by Site'' \<and>
   pie_names (update_pie_chart D ''ALL'') =
     map Text (sorted_list_of_set (launch_site ` {r \<in> set D. launch_class r = 1})) \<and>
   pie_values (update_pie_chart D ''ALL'') =
     map (\<lambda>s. length (filter (\<lambda>r. launch_class r = 1 \<and> launch_site r = s) D))
       (sorted_list_of_set (launch_site ` {r \<in> set D. launch_class r = 1})) \<and>
   sum_list (pie_values (update_pie_chart D ''ALL'')) = length (filter (\<lambda>r. launch_class r = 1) D)"
proof -
  have "sorted_list_of_set (launch_site ` {r \<in> set D. launch_class r = 1}) =
        sort (remdups (map launch_site (filter (\<lambda>r. launch_class r = 1) D)))"
    using sorted_list_of_set_sort_remdups [of "map launch_site (filter (\<lambda>r. launch_class r = 1) D)"]
    by simp
  then show ?thesis
    using pie_title_ALL [of D] pie_names_ALL [of D] pie_values_ALL [of D] sum_pie_values_ALL [of D]
    by presburger
qed

theorem update_pie_chart_all_sites_witness:
  "pie_title (update_pie_chart spec_example ''ALL'') = ''Total Successful Launches by Site'' \<and>
   pie_names (update_pie_chart spec_example ''ALL'') = [Text ''A'', Text ''B''] \<and>
   pie_values (update_pie_chart spec_example ''ALL'') = [1, 1] \<and>
   sum_list (pie_values (update_pie_chart spec_example ''ALL'')) = 2"
proof -
  have "launch_site ` {r \<in> set spec_example. launch_class r = 1} =
        set (map launch_site (filter (\<lambda>r. launch_class r = 1) spec_example))"
    by simp
  also have "\<dots> = set [''A'', ''B'']"
    by (simp add: spec_example_def)
  finally have "launch_site ` {r \<in> set spec_example. launch_class r = 1} = set [''A'', ''B'']" .
  moreover have "sorted_list_of_set (set [''A'', ''B'']) = [''A'', ''B'']"
    unfolding sorted_list_of_set_sort_remdups by simp
  ultimately show ?thesis
    using update_pie_chart_all_sites [of spec_example]
    by (simp add: spec_example_def)
qed

text \<open>
  C10. With the site filter \<open>ALL\<close>, a site is among the names of the pie chart exactly
  when the dataset has a row of class 1 on that site; every name is a site name with its
  own count, and no count is zero: a site with failures only is left out.
\<close>

theorem update_pie_chart_omits_failed_sites:
  "(Text s \<in> set (pie_names (update_pie_chart D ''ALL'')) \<longleftrightarrow>
      (\<exists>r \<in> set D. launch_site r = s \<and> launch_class r = 1)) \<and>
   Number n \<notin> set (pie_names (update_pie_chart D ''ALL'')) \<and>
   length (pie_names (update_pie_chart D ''ALL'')) = length (pie_values (update_pie_chart D ''ALL'')) \<and>
   0 \<notin> set (pie_values (update_pie_chart D ''ALL''))"
  by (auto simp add: pie_names_ALL pie_values_ALL filter_empty_conv)

theorem update_pie_chart_omits_failed_sites_witness:
  "Text ''A'' \<in> set (pie_names (update_pie_chart failures_example ''ALL'')) \<and>
   Text ''C'' \<notin> set (pie_names (update_pie_chart failures_example ''ALL'')) \<and>
   0 \<notin> set (pie_values (update_pie_chart failures_example ''ALL''))"
  using update_pie_chart_omits_failed_sites [of "''A''" failures_example]
    update_pie_chart_omits_failed_sites [of "''C''" failures_example]
  by (simp add: failures_example_def spec_example_def)

section \<open>The pie chart, one site\<close>

lemma distinct_unique: "distinct (unique col)"
  by (simp add: unique_def)

lemma set_unique: "set (unique col) = set col"
  by (simp add: unique_def)

lemma mset_value_counts:
  "mset (value_counts col) = image_mset (\<lambda>v. (v, count_list col v)) (mset (unique col))"
  by (simp add: value_counts_def)

lemma set_value_counts: "set (value_counts col) = (\<lambda>v. (v, count_list col v)) ` set col"
  by (simp add: value_counts_def set_unique)

lemma sum_list_value_counts: "sum_list (map snd (value_counts col)) = length col"
proof -
  have "sum_list (map snd (value_counts col)) = sum_mset (image_mset snd (mset (value_counts col)))"
    by (simp add: sum_mset_sum_list [symmetric])
  also have "\<dots> = sum_mset (image_mset (count_list col) (mset (unique col)))"
    by (simp add: mset_value_counts image_mset.compositionality comp_def)
  also have "\<dots> = sum_list (map (count_list col) (unique col))"
    by (simp add: sum_mset_sum_list [symmetric])
  also have "\<dots> = sum (count_list col) (set col)"
    by (simp add: sum_list_distinct_conv_sum_set distinct_unique set_unique)
  also have "\<dots> = length col"
    by (rule sum_count_set) simp_all
  finally show ?thesis .
qed

lemma inj_replace_class: "inj replace_class"
  by (auto simp add: inj_on_def replace_class_def split: if_splits)

lemma distinct_value_counts_keys: "distinct (map (\<lambda>(c, n). f c) (value_counts col)) \<longleftrightarrow> distinct (map f (unique col))"
proof -
  have "mset (map (\<lambda>(c, n). f c) (value_counts col)) = image_mset (\<lambda>(c, n). f c) (mset (value_counts col))"
    by simp
  also have "\<dots> = mset (map f (unique col))"
    by (simp add: mset_value_counts image_mset.compositionality comp_def)
  finally show ?thesis
    by (rule mset_eq_imp_distinct_iff)
qed

lemma pie_title_site: "s \<noteq> ''ALL'' \<Longrightarrow> pie_title (update_pie_chart D s) = ''Success vs Failure for '' @ s"
  by (simp add: update_pie_chart_site px_pie_def)

lemma pie_names_site:
  "s \<noteq> ''ALL'' \<Longrightarrow> pie_names (update_pie_chart D s) =
     map (\<lambda>(c, n). replace_class c) (value_counts (map launch_class (filter (\<lambda>r. launch_site r = s) D)))"
  by (simp add: update_pie_chart_site px_pie_def comp_def case_prod_unfold)

lemma pie_values_site:
  "s \<noteq> ''ALL'' \<Longrightarrow> pie_values (update_pie_chart D s) =
     map snd (value_counts (map launch_class (filter (\<lambda>r. launch_site r = s) D)))"
  by (simp add: update_pie_chart_site px_pie_def comp_def case_prod_unfold)

lemma set_pie_names_site:
  "s \<noteq> ''ALL'' \<Longrightarrow> set (pie_names (update_pie_chart D s)) =
     replace_class ` launch_class ` {r \<in> set D. launch_site r = s}"
  by (auto simp add: pie_names_site set_value_counts image_iff)

lemma set_pie_rows_site:
  assumes "s \<noteq> ''ALL''"
  shows "set (zip (pie_names (update_pie_chart D s)) (pie_values (update_pie_chart D s))) =
     (\<lambda>c. (replace_class c, length (filter (\<lambda>r. launch_site r = s \<and> launch_class r = c) D))) `
        launch_class ` {r \<in> set D. launch_site r = s}"
proof -
  let ?col = "map launch_class (filter (\<lambda>r. launch_site r = s) D)"
  have cnt: "count_list ?col c = length (filter (\<lambda>r. launch_site r = s \<and> launch_class r = c) D)" for c
    by (simp add: count_list_map_filter conj_commute)
  have "zip (pie_names (update_pie_chart D s)) (pie_values (update_pie_chart D s)) =
        map (\<lambda>(c, n). (replace_class c, n)) (value_counts ?col)"
    using assms by (simp add: pie_names_site pie_values_site zip_map_map zip_same_conv_map case_prod_unfold)
  then have "set (zip (pie_names (update_pie_chart D s)) (pie_values (update_pie_chart D s))) =
        (\<lambda>c. (replace_class c, count_list ?col c)) ` set ?col"
    by (simp add: set_value_counts image_image)
  then show ?thesis
    by (simp add: cnt image_image)
qed

text \<open>
  C3. With a site filter \<open>S\<close> other than \<open>ALL\<close>, \<open>update_pie_chart\<close> returns the
  title \<open>Success vs Failure for S\<close>; its counts add up to the number of rows on site
  \<open>S\<close>; its names are distinct and are, each with the number of rows of \<open>S\<close> in that
  class, the classes that occur on \<open>S\<close> after the replacement of 1 by \<open>Success\<close> and of
  0 by \<open>Failure\<close>. When every class of the dataset is 0 or 1, as the data model has it,
  the names are \<open>Success\<close> if \<open>S\<close> has a row of class 1 and \<open>Failure\<close> if it has one
  of class 0, and nothing else.
\<close>

theorem update_pie_chart_one_site:
  assumes "S \<noteq> ''ALL''"
  shows "pie_title (update_pie_chart D S) = ''Success vs Failure for '' @ S \<and>
    sum_list (pie_values (update_pie_chart D S)) = length (filter (\<lambda>r. launch_site r = S) D) \<and>
    length (pie_names (update_pie_chart D S)) = length (pie_values (update_pie_chart D S)) \<and>
    distinct (pie_names (update_pie_chart D S)) \<and>
    set (zip (pie_names (update_pie_chart D S)) (pie_values (update_pie_chart D S))) =
      (\<lambda>c. (replace_class c, length (filter (\<lambda>r. launch_site r = S \<and> launch_class r = c) D))) `
        launch_class ` {r \<in> set D. launch_site r = S} \<and>
    ((\<forall>r \<in> set D. launch_class r = 0 \<or> launch_class r = 1) \<longrightarrow>
       set (pie_names (update_pie_chart D S)) =
         (if \<exists>r \<in> set D. launch_site r = S \<and> launch_class r = 1 then {Text ''Success''} else {}) \<union>
         (if \<exists>r \<in> set D. launch_site r = S \<and> launch_class r = 0 then {Text ''Failure''} else {}))"
proof (intro conjI impI)
  show "pie_title (update_pie_chart D S) = ''Success vs Failure for '' @ S"
    using assms by (rule pie_title_site)
  show "sum_list (pie_values (update_pie_chart D S)) = length (filter (\<lambda>r. launch_site r = S) D)"
    using assms by (simp add: pie_values_site sum_list_value_counts)
  show "length (pie_names (update_pie_chart D S)) = length (pie_values (update_pie_chart D S))"
    using assms by (simp add: pie_names_site pie_values_site)
  have "distinct (map replace_class (unique (map launch_class (filter (\<lambda>r. launch_site r = S) D))))"
    by (simp add: distinct_map distinct_unique inj_on_subset [OF inj_replace_class])
  then have "distinct (map (\<lambda>(c, n). replace_class c)
      (value_counts (map launch_class (filter (\<lambda>r. launch_site r = S) D))))"
    by (simp only: distinct_value_counts_keys)
  then show "distinct (pie_names (update_pie_chart D S))"
    by (simp only: pie_names_site [OF assms])
  show "set (zip (pie_names (update_pie_chart D S)) (pie_values (update_pie_chart D S))) =
      (\<lambda>c. (replace_class c, length (filter (\<lambda>r. launch_site r = S \<and> launch_class r = c) D))) `
        launch_class ` {r \<in> set D. launch_site r = S}"
    using assms by (rule set_pie_rows_site)
next
  assume wf: "\<forall>r \<in> set D. launch_class r = 0 \<or> launch_class r = 1"
  have "replace_class ` launch_class ` {r \<in> set D. launch_site r = S} =
         (if \<exists>r \<in> set D. launch_site r = S \<and> launch_class r = 1 then {Text ''Success''} else {}) \<union>
         (if \<exists>r \<in> set D. launch_site r = S \<and> launch_class r = 0 then {Text ''Failure''} else {})"
    using wf by (auto simp add: replace_class_def image_iff)
  then show "set (pie_names (update_pie_chart D S)) =
         (if \<exists>r \<in> set D. launch_site r = S \<and> launch_class r = 1 then {Text ''Success''} else {}) \<union>
         (if \<exists>r \<in> set D. launch_site r = S \<and> launch_class r = 0 then {Text ''Failure''} else {})"
    by (simp only: set_pie_names_site [OF assms])
qed

theorem update_pie_chart_one_site_witness:
  "''A'' \<noteq> ''ALL'' \<and> pie_title (update_pie_chart spec_example ''A'') = ''Success vs Failure for A'' \<and>
   sum_list (pie_values (update_pie_chart spec_example ''A'')) = 2 \<and>
   set (pie_names (update_pie_chart spec_example ''A'')) = {Text ''Success'', Text ''Failure''} \<and>
   set (pie_names (update_pie_chart spec_example ''B'')) = {Text ''Success''}"
  using update_pie_chart_one_site [of "''A''" spec_example]
    update_pie_chart_one_site [of "''B''" spec_example]
  by (auto simp add: spec_example_def)

text \<open>
  C4. With a site filter that is not \<open>ALL\<close> and is the site of no row, both callbacks
  return and return nothing to draw: the pie chart has no names and no values, and the
  scatter figure has no rows, for every payload range \<open>[lo, hi]\<close>. (No statement of
  \<open>update_pie_chart\<close> can raise; \<open>update_scatter\<close> returns \<open>Inr\<close>.)
\<close>

theorem unknown_site_empty:
  assumes "S \<noteq> ''ALL''" and "S \<notin> launch_site ` set D"
  shows "update_pie_chart D S =
           \<lparr>pie_names = [], pie_values = [], pie_title = ''Success vs Failure for '' @ S\<rparr> \<and>
         (\<exists>fig. update_scatter D S [lo, hi] = Inr fig \<and> sc_data_frame fig = [])"
proof -
  have none: "filter (\<lambda>r. launch_site r = S) D = []"
    using assms(2) by (auto simp add: filter_empty_conv)
  have "filter (\<lambda>r. lo \<le> payload_mass r \<and> payload_mass r \<le> hi \<and>
                    (S = ''ALL'' \<or> launch_site r = S)) D = []"
    using assms by (auto simp add: filter_empty_conv)
  moreover have "value_counts ([] :: int list) = []"
    by (simp add: value_counts_def unique_def)
  ultimately show ?thesis
    using assms(1)
    by (simp add: update_pie_chart_site none px_pie_def update_scatter_filter sc_data_frame_update_yaxes)
qed

theorem unknown_site_empty_witness:
  "''Z'' \<noteq> ''ALL'' \<and> ''Z'' \<notin> launch_site ` set spec_example \<and>
   update_pie_chart spec_example ''Z'' =
     \<lparr>pie_names = [], pie_values = [], pie_title = ''Success vs Failure for Z''\<rparr> \<and>
   (\<exists>fig. update_scatter spec_example ''Z'' [0, 1000] = Inr fig \<and> sc_data_frame fig = [])"
  using unknown_site_empty [of "''Z''" spec_example 0 1000]
  by (simp add: spec_example_def)

section \<open>The default payload range\<close>

lemma of_int_trunc_zero: "real_of_int (trunc_zero c) = c \<longleftrightarrow> c \<in> \<int>"
  by (auto simp add: trunc_zero_def Ints_def)

text \<open>
  C6, as the code has it. For a dataset with at least one row whose largest and smallest
  payload differ by less than \<open>2 ^ 1024 - 2 ^ 970\<close> (their float64 difference is finite;
  it is so for every int64 column), the slider's default value is \<open>[int(min), int(max)]\<close>
  of the payloads, \<open>int\<close> truncating toward zero: it is the exact minimum and maximum
  exactly when both are whole numbers.
\<close>

theorem payload_slider_default:
  assumes "series_min (map payload_mass D) = Some lo"
    and "series_max (map payload_mass D) = Some hi"
    and "\<not> float64_overflow (hi - lo)"
  shows "\<exists>sl. payload_slider D = Inr sl \<and> rs_value sl = [trunc_zero lo, trunc_zero hi] \<and>
           (map real_of_int (rs_value sl) = [lo, hi] \<longleftrightarrow> lo \<in> \<int> \<and> hi \<in> \<int>)"
  using assms by (simp add: payload_slider_def py_int_def marks_step_def of_int_trunc_zero)

theorem payload_slider_default_witness:
  "series_min (map payload_mass spec_example) = Some 500 \<and>
   series_max (map payload_mass spec_example) = Some 800 \<and>
   \<not> float64_overflow (800 - 500) \<and>
   (\<exists>sl. payload_slider spec_example = Inr sl \<and> rs_value sl = [500, 800] \<and>
      map real_of_int (rs_value sl) = [500, 800])"
proof -
  have small: "\<not> float64_overflow (800 - 500)"
    by (simp add: float64_overflow_def)
  moreover have "series_min (map payload_mass spec_example) = Some 500"
    and "series_max (map payload_mass spec_example) = Some 800"
    by (simp_all add: spec_example_def)
  ultimately show ?thesis
    using payload_slider_default [of spec_example 500 800]
    by (simp add: trunc_zero_def)
qed

text \<open>
  With payloads 362.5 and 9600.75 the default value is \<open>[362, 9600]\<close>, not the minimum and
  maximum.
\<close>

theorem payload_slider_default_counterexample:
  "series_min (map payload_mass frac_example) = Some (725 / 2) \<and>
   series_max (map payload_mass frac_example) = Some (38403 / 4) \<and>
   payload_slider frac_example =
     Inr \<lparr>rs_min = 362, rs_max = 9600, rs_step = 100, rs_value = [362, 9600]\<rparr> \<and>
   map real_of_int [362, 9600] \<noteq> [725 / 2, 38403 / 4]"
  by (simp add: frac_example_def payload_slider_def py_int_def marks_step_def
      float64_overflow_def trunc_zero_def)

text \<open>
  An empty dataset has no minimum: building the slider raises. So does a dataset whose
  payloads are so far apart that their float64 difference is infinite.
\<close>

lemma payload_slider_empty: "payload_slider [] = Inl ValueError"
  by (simp add: payload_slider_def py_int_def)

lemma payload_slider_overflow:
  assumes "series_min (map payload_mass D) = Some lo"
    and "series_max (map payload_mass D) = Some hi"
    and "float64_overflow (hi - lo)"
  shows "payload_slider D = Inl ValueError"
  using assms by (simp add: payload_slider_def py_int_def marks_step_def)

lemma payload_slider_spread_example: "payload_slider spread_example = Inl ValueError"
proof -
  have "series_min (map payload_mass spread_example) = Some (- (10 ^ 308))"
    and "series_max (map payload_mass spread_example) = Some (10 ^ 308)"
    by (simp_all add: spread_example_def)
  moreover have "float64_overflow (10 ^ 308 - (- (10 ^ 308)))"
    by (simp add: float64_overflow_def)
  ultimately show ?thesis
    by (rule payload_slider_overflow)
qed

text \<open>
  With the default range of the payloads 362.5 and 9600.75 the scatter chart loses the
  heaviest launch.
\<close>

lemma default_range_drops_row:
  "\<exists>fig. update_scatter_typed Float64 frac_example ''ALL'' [PyInt 362, PyInt 9600] = Inr fig \<and>
     sc_data_frame fig = [frac_example ! 0]"
  by (simp add: update_scatter_typed_filter sc_data_frame_update_yaxes frac_example_def
      round_f64_small)

section \<open>The state across a call\<close>

lemma keepsD:
  assumes "keeps n Q m" and "n \<le> length (objects st)"
  shows "n \<le> length (objects (snd (m st)))"
    and "(snd (m st))\<lparr>objects := take n (objects (snd (m st)))\<rparr> = st\<lparr>objects := take n (objects st)\<rparr>"
    and "fst (m st) = Inr a \<Longrightarrow> Q a"
  using assms unfolding keeps_def by blast+

lemma keeps_succeed: "Q a \<Longrightarrow> keeps n Q (succeed a)"
  by (simp add: keeps_def succeed_def)

lemma keeps_raise: "keeps n Q (raise e)"
  by (simp add: keeps_def raise_def)

lemma keeps_and_then:
  fixes m :: "('r, 'a) action" and f :: "'a \<Rightarrow> ('r, 'b) action"
  assumes "keeps n Q m" and "\<And>a. Q a \<Longrightarrow> keeps n R (f a)"
  shows "keeps n R (and_then m f)"
  unfolding keeps_def
proof (intro allI impI)
  fix st :: "'r program_state"
  assume n: "n \<le> length (objects st)"
  note m = keepsD [OF assms(1) n]
  show "n \<le> length (objects (snd (and_then m f st))) \<and>
        (snd (and_then m f st))\<lparr>objects := take n (objects (snd (and_then m f st)))\<rparr> =
          st\<lparr>objects := take n (objects st)\<rparr> \<and>
        (\<forall>b. fst (and_then m f st) = Inr b \<longrightarrow> R b)"
  proof (cases "fst (m st)")
    case (Inl e)
    then have "and_then m f st = (Inl e, snd (m st))"
      by (cases "m st") (simp add: and_then_def)
    with m(1,2) show ?thesis by simp
  next
    case (Inr a)
    then have eq: "and_then m f st = f a (snd (m st))"
      by (cases "m st") (simp add: and_then_def)
    from Inr have "keeps n R (f a)" by (intro assms(2) m(3))
    from keepsD [OF this m(1)] m(2) show ?thesis
      unfolding eq by simp
  qed
qed

lemma keeps_new_object: "keeps n (\<lambda>ref. n \<le> ref) (new_object obj)"
  by (simp add: keeps_def new_object_def)

lemma keeps_read_object: "keeps n (\<lambda>_. True) (read_object ref)"
  by (simp add: keeps_def read_object_def)

lemma keeps_write_object: "n \<le> ref \<Longrightarrow> keeps n (\<lambda>_. True) (write_object ref obj)"
  by (simp add: keeps_def write_object_def)

lemma keeps_read_frame: "keeps n (\<lambda>_. True) (read_frame ref)"
  unfolding read_frame_def
  by (rule keeps_and_then [OF keeps_read_object]) (simp add: keeps_succeed keeps_raise split: object.splits)

lemma keeps_read_counts: "keeps n (\<lambda>_. True) (read_counts ref)"
  unfolding read_counts_def
  by (rule keeps_and_then [OF keeps_read_object]) (simp add: keeps_succeed keeps_raise split: object.splits)

lemma keeps_read_scatter: "keeps n (\<lambda>_. True) (read_scatter ref)"
  unfolding read_scatter_def
  by (rule keeps_and_then [OF keeps_read_object]) (simp add: keeps_succeed keeps_raise split: object.splits)

lemma keeps_read_global: "keeps n (\<lambda>_. True) (\<lambda>st. read_frame (spacex_df st) st)"
  using keeps_read_frame [of n] unfolding keeps_def by blast

lemma keeps_if:
  "(c \<Longrightarrow> keeps n Q m1) \<Longrightarrow> (\<not> c \<Longrightarrow> keeps n Q m2) \<Longrightarrow> keeps n Q (if c then m1 else m2)"
  by simp

lemma keeps_update_pie_chart_st: "keeps n (\<lambda>ref. n \<le> ref) (update_pie_chart_st s)"
  unfolding update_pie_chart_st_def
  apply (rule keeps_and_then [OF keeps_read_global])
  apply (rule keeps_if)
   apply (rule keeps_and_then [OF keeps_new_object])
   apply (rule keeps_and_then [OF keeps_read_counts])
   apply (rule keeps_new_object)
  apply (rule keeps_and_then [OF keeps_new_object])
  apply (rule keeps_and_then [OF keeps_read_frame])
  apply (rule keeps_and_then [OF keeps_new_object])
  apply (rule keeps_and_then [OF keeps_read_counts])
  apply (rule keeps_and_then [OF keeps_write_object])
   apply assumption
  apply (rule keeps_and_then [OF keeps_read_counts])
  apply (rule keeps_and_then [OF keeps_write_object])
   apply assumption
  apply (rule keeps_and_then [OF keeps_read_counts])
  apply (rule keeps_new_object)
  done

lemma keeps_scatter_figure:
  "keeps n (\<lambda>ref. n \<le> ref)
     (if s = ''ALL'' then new_object (ScatterFigure (px_scatter fdf t1))
      else and_then (new_object (DataFrame (getitem_mask fdf (series_eq (map launch_site fdf) s))))
             (\<lambda>site_df. and_then (read_frame site_df)
                (\<lambda>sdf. new_object (ScatterFigure (px_scatter sdf t2)))))"
  apply (rule keeps_if)
   apply (rule keeps_new_object)
  apply (rule keeps_and_then [OF keeps_new_object])
  apply (rule keeps_and_then [OF keeps_read_frame])
  apply (rule keeps_new_object)
  done

lemma update_scatter_st_raise:
  "\<not> (\<exists>low high. pr = [low, high]) \<Longrightarrow> update_scatter_st s pr = raise ValueError"
  by (auto simp add: update_scatter_st_def split: list.splits)

lemma keeps_update_scatter_st: "keeps n (\<lambda>ref. n \<le> ref) (update_scatter_st s pr)"
proof (cases "\<exists>low high. pr = [low, high]")
  case False
  show ?thesis
    by (simp only: update_scatter_st_raise [OF False] keeps_raise)
next
  case True
  then obtain low high where pr: "pr = [low, high]" by blast
  show ?thesis
    unfolding update_scatter_st_def pr list.case
    apply (rule keeps_and_then [OF keeps_read_global])
    apply (rule keeps_and_then [OF keeps_new_object])
    apply (rule keeps_and_then [OF keeps_read_frame])
    apply (rule keeps_and_then [OF keeps_scatter_figure])
    apply (rule keeps_and_then [OF keeps_read_scatter])
    apply (rule keeps_and_then [OF keeps_write_object])
     apply assumption
    apply (rule keeps_succeed)
    apply assumption
    done
qed


lemma extends_iff:
  "extends st st' \<longleftrightarrow>
     length (objects st) \<le> length (objects st') \<and>
     st'\<lparr>objects := take (length (objects st)) (objects st')\<rparr> = st"
proof
  assume "extends st st'"
  then have eq: "st' = st\<lparr>objects := objects st @ drop (length (objects st)) (objects st')\<rparr>"
    by (simp add: extends_def)
  have "length (objects st) \<le> length (objects st')"
    by (subst eq) simp
  moreover have "st'\<lparr>objects := take (length (objects st)) (objects st')\<rparr> = st"
    by (subst (1 2) eq) simp
  ultimately show "length (objects st) \<le> length (objects st') \<and>
     st'\<lparr>objects := take (length (objects st)) (objects st')\<rparr> = st" ..
next
  assume a: "length (objects st) \<le> length (objects st') \<and>
     st'\<lparr>objects := take (length (objects st)) (objects st')\<rparr> = st"
  then have "st\<lparr>objects := objects st @ drop (length (objects st)) (objects st')\<rparr> =
        st'\<lparr>objects := take (length (objects st)) (objects st') @ drop (length (objects st)) (objects st')\<rparr>"
    by (metis program_state.surjective program_state.update_convs(1) program_state.select_convs(1))
  then show "extends st st'"
    by (simp add: extends_def)
qed

lemma keeps_extends:
  assumes "keeps (length (objects st)) Q m"
  shows "extends st (snd (m st))"
  using keepsD(1,2) [OF assms order_refl]
  by (simp add: extends_iff)


lemma read_frame_dataset:
  "read_frame (spacex_df st) st =
     (case dataset st of None \<Rightarrow> (Inl TypeError, st) | Some df \<Rightarrow> (Inr df, st))"
  by (simp add: read_frame_def read_object_def and_then_def dataset_def succeed_def raise_def
      split: object.splits)

lemma and_then_read_global:
  "and_then (\<lambda>st. read_frame (spacex_df st) st) f st =
     (case dataset st of None \<Rightarrow> (Inl TypeError, st) | Some df \<Rightarrow> f df st)"
  by (simp add: and_then_def read_frame_dataset split: option.splits)

lemma dataset_extends:
  assumes "extends st st'" and "dataset st = Some df"
  shows "dataset st' = Some df"
proof -
  from assms(1) have eq: "st' = st\<lparr>objects := objects st @ drop (length (objects st)) (objects st')\<rparr>"
    by (simp add: extends_def)
  from assms(2) have "spacex_df st < length (objects st)"
    and "(case objects st ! spacex_df st of DataFrame df \<Rightarrow> Some df | _ \<Rightarrow> None) = Some df"
    by (simp_all add: dataset_def split: if_splits)
  then show ?thesis
    by (subst eq) (simp add: dataset_def nth_append)
qed

lemma update_pie_chart_st_no_dataset:
  "dataset st = None \<Longrightarrow> update_pie_chart_st s st = (Inl TypeError, st)"
  by (simp add: update_pie_chart_st_def and_then_read_global)

lemma update_scatter_st_no_dataset:
  "dataset st = None \<Longrightarrow> snd (update_scatter_st s pr st) = st"
  by (cases "\<exists>low high. pr = [low, high]")
    (auto simp add: update_scatter_st_raise raise_def, simp add: update_scatter_st_def and_then_read_global)

lemma new_object_then:
  "and_then (new_object obj) f st = f (length (objects st)) (st\<lparr>objects := objects st @ [obj]\<rparr>)"
  by (simp add: and_then_def new_object_def)

lemma read_frame_then:
  "ref < length (objects st) \<Longrightarrow> objects st ! ref = DataFrame df \<Longrightarrow>
     and_then (read_frame ref) f st = f df st"
  by (simp add: and_then_def read_frame_def read_object_def succeed_def)

lemma read_counts_then:
  "ref < length (objects st) \<Longrightarrow> objects st ! ref = CountFrame rows \<Longrightarrow>
     and_then (read_counts ref) f st = f rows st"
  by (simp add: and_then_def read_counts_def read_object_def succeed_def)

lemma read_scatter_then:
  "ref < length (objects st) \<Longrightarrow> objects st ! ref = ScatterFigure fig \<Longrightarrow>
     and_then (read_scatter ref) f st = f fig st"
  by (simp add: and_then_def read_scatter_def read_object_def succeed_def)

lemma write_object_then:
  "ref < length (objects st) \<Longrightarrow>
     and_then (write_object ref obj) f st = f () (st\<lparr>objects := (objects st)[ref := obj]\<rparr>)"
  by (simp add: and_then_def write_object_def)

lemma and_then_assoc:
  "and_then (and_then m f) g = and_then m (\<lambda>a. and_then (f a) g)"
  by (auto simp add: and_then_def fun_eq_iff split: prod.splits sum.splits)

lemmas run_simps =
  and_then_read_global new_object_then read_frame_then read_counts_then read_scatter_then
  write_object_then nth_append list_update_append

lemma replace_cell_Number: "(\<lambda>(c, n). (replace_cell c, n)) \<circ> (\<lambda>(c, n). (Number c, n)) = (\<lambda>(c, n). (replace_class c, n))"
  by (auto simp add: replace_cell_def fun_eq_iff)

text \<open>On the store the callbacks build the figures computed above.\<close>

lemma update_pie_chart_st_result:
  assumes "dataset st = Some D"
  shows "\<exists>fig st'. update_pie_chart_st s st = (Inr fig, st') \<and> fig < length (objects st') \<and>
           objects st' ! fig = PieFigure (update_pie_chart D s)"
  using assms
  by (simp add: update_pie_chart_st_def update_pie_chart_def run_simps new_object_def
      replace_cell_Number Let_def)

lemma update_scatter_st_result:
  assumes "dataset st = Some D"
  shows "\<exists>fig st'. update_scatter_st s [lo, hi] st = (Inr fig, st') \<and> fig < length (objects st') \<and>
           Inr (objects st' ! fig) = map_sum id ScatterFigure (update_scatter D s [lo, hi])"
  using assms
  by (simp add: update_scatter_st_def update_scatter.simps run_simps and_then_assoc
      new_object_def succeed_def Let_def)


lemma dataset_load: "dataset (load D) = Some D"
  by (simp add: dataset_def load_def)

lemma dataset_kept:
  assumes "extends st st'" and "dataset st = None \<Longrightarrow> st' = st"
  shows "dataset st' = dataset st"
proof (cases "dataset st")
  case None
  with assms(2) show ?thesis by simp
next
  case (Some df)
  with dataset_extends [OF assms(1)] show ?thesis by simp
qed

text \<open>
  C8. A call of either callback, with any site filter and any payload range, in any state,
  leaves every object that existed before the call and every module-level variable as it
  was: the state after the call is the state before it with the objects the call created
  added to the store, also when the call raises. In particular the dataset is the same
  frame, with the same rows, before and after.
\<close>

theorem callbacks_leave_state_unchanged:
  "extends st (snd (update_pie_chart_st s st)) \<and>
   dataset (snd (update_pie_chart_st s st)) = dataset st \<and>
   extends st (snd (update_scatter_st s pr st)) \<and>
   dataset (snd (update_scatter_st s pr st)) = dataset st"
proof (intro conjI)
  show pie: "extends st (snd (update_pie_chart_st s st))"
    by (rule keeps_extends [OF keeps_update_pie_chart_st])
  show scatter: "extends st (snd (update_scatter_st s pr st))"
    by (rule keeps_extends [OF keeps_update_scatter_st])
  show "dataset (snd (update_pie_chart_st s st)) = dataset st"
    using pie by (rule dataset_kept) (simp add: update_pie_chart_st_no_dataset)
  show "dataset (snd (update_scatter_st s pr st)) = dataset st"
    using scatter by (rule dataset_kept) (simp add: update_scatter_st_no_dataset)
qed

theorem callbacks_leave_state_unchanged_witness:
  "extends (load spec_example) (snd (update_pie_chart_st ''A'' (load spec_example))) \<and>
   dataset (snd (update_pie_chart_st ''A'' (load spec_example))) = Some spec_example \<and>
   extends (load spec_example) (snd (update_scatter_st ''A'' [550, 1000] (load spec_example))) \<and>
   dataset (snd (update_scatter_st ''A'' [550, 1000] (load spec_example))) = Some spec_example"
  using callbacks_leave_state_unchanged [of "load spec_example" "''A''" "[550, 1000]"]
  by (simp add: dataset_load)

end
